theory Spec2Isabelle
  imports Complex_Main "HOL-Library.Multiset"
begin

section \<open>The wallet ledger of TradeBridge (backend/routes/wallet.js)\<close>

text \<open>
  The ledger is a set of Express handlers over four SQLite tables. Each handler is a
  straight-line sequence of store accesses (\<^verbatim>\<open>await getQuery\<close>, \<^verbatim>\<open>await runQuery\<close>,
  \<^verbatim>\<open>await allQuery\<close>) with synchronous checks in between. The embedding below keeps
  that shape: a table is the list of its rows in rowid order, a store access is a
  function on the database, a handler is the composition of its accesses and returns
  the HTTP answer together with the database it leaves behind.

  Amounts and balances are JavaScript numbers in the source. The handlers are modelled
  with exact rational arithmetic, which leaves the rounding of binary floating point
  out: on the doubles nearest to 1000, 0.01 and 999.99 the source finds
  \<^verbatim>\<open>1000 - 0.01 == 999.99\<close> and accepts a debit that exact arithmetic refuses. What the
  rounding does to the balance check of \<^verbatim>\<open>POST /transactions\<close> is the subject of a
  second model of that handler, which rounds every sum and difference to the nearest
  double.

  The store is taken to be available and the values of \<^verbatim>\<open>uuidv4()\<close> to be new, so a
  statement fails only by its own semantics: the aggregate query of \<^verbatim>\<open>GET /stats\<close>,
  whose \<^verbatim>\<open>SUM\<close> can raise. Besides that the \<^verbatim>\<open>catch\<close> branch of a handler is modelled
  where the handler's own code can raise (a property read on a missing row).
\<close>

subsection \<open>Rows and tables\<close>

record user =
  u_id :: nat
  u_email :: string
  u_first_name :: string
  u_last_name :: string
  u_is_active :: bool

record wallet =
  w_id :: nat
  w_user_id :: nat
  w_currency :: string
  w_balance :: rat
  w_frozen_balance :: rat

text \<open>
  The \<^verbatim>\<open>metadata\<close> column holds a JSON string: the serialisation of the request's
  metadata object, or of the object a transfer builds for each leg.
\<close>

datatype metadata =
  Request_Metadata string
| Outgoing string nat
| Incoming string nat

record transaction =
  t_id :: nat
  t_uuid :: string
  t_wallet_id :: nat
  t_user_id :: nat
  t_type :: string
  t_amount :: rat
  t_currency :: string
  t_description :: "string option"
  t_reference :: "string option"
  t_status :: string
  t_metadata :: "metadata option"
  t_created_at :: nat

text \<open>
  A notification's message is a template string over the amount, the currency and an
  address or kind; it is kept as its parts.
\<close>

datatype message =
  Transaction_Completed string string rat
| Transfer_Sent string rat string
| Transfer_Received string rat string

record notification =
  n_uuid :: string
  n_user_id :: nat
  n_type :: string
  n_title :: string
  n_message :: message
  n_transaction_id :: nat

record db =
  users :: "user list"
  wallets :: "wallet list"
  transactions :: "transaction list"
  notifications :: "notification list"

subsection \<open>Answers\<close>

text \<open>The \<^verbatim>\<open>code\<close> field of an error answer.\<close>

datatype error =
  VALIDATION_ERROR
| WALLET_NOT_FOUND
| INSUFFICIENT_BALANCE rat
| SENDER_WALLET_NOT_FOUND
| RECIPIENT_NOT_FOUND
| RECIPIENT_WALLET_NOT_FOUND
| CREATE_ERROR
| TRANSFER_ERROR
| STATS_ERROR

record transaction_created =
  created_transaction :: transaction
  created_newBalance :: rat

record transfer_completed =
  transfer_uuid :: string
  transfer_amount :: rat
  transfer_currency :: string
  transfer_recipientEmail :: string
  transfer_recipientName :: string
  transfer_description :: "string option"
  transfer_newBalance :: rat

subsection \<open>Store accesses\<close>

text \<open>\<^verbatim>\<open>SELECT * FROM wallets WHERE user_id = ?\<close> through \<^verbatim>\<open>getQuery\<close>: the first row.\<close>

definition select_wallet :: "db \<Rightarrow> nat \<Rightarrow> wallet option" where
  "select_wallet d uid = find (\<lambda>w. w_user_id w = uid) (wallets d)"

text \<open>\<^verbatim>\<open>SELECT ... FROM users WHERE email = ? AND is_active = 1\<close>.\<close>

definition select_active_user :: "db \<Rightarrow> string \<Rightarrow> user option" where
  "select_active_user d e = find (\<lambda>u. u_email u = e \<and> u_is_active u) (users d)"

text \<open>\<^verbatim>\<open>SELECT * FROM transactions WHERE id = ?\<close>.\<close>

definition select_transaction :: "db \<Rightarrow> nat \<Rightarrow> transaction option" where
  "select_transaction d i = find (\<lambda>t. t_id t = i) (transactions d)"

text \<open>
  \<^verbatim>\<open>INSERT INTO transactions\<close>: the row gets the next rowid of the table, which
  \<^verbatim>\<open>runQuery\<close> resolves as \<^verbatim>\<open>this.lastID\<close>.
\<close>

definition last_id :: "transaction list \<Rightarrow> nat" where
  "last_id ts = fold max (map t_id ts) 0"

definition insert_transaction :: "db \<Rightarrow> transaction \<Rightarrow> nat \<times> db" where
  "insert_transaction d t =
     (let i = Suc (last_id (transactions d))
      in (i, d\<lparr>transactions := transactions d @ [t\<lparr>t_id := i\<rparr>]\<rparr>))"

text \<open>\<^verbatim>\<open>UPDATE wallets SET balance = ? ... WHERE id = ?\<close>.\<close>

definition update_wallet_balance :: "db \<Rightarrow> rat \<Rightarrow> nat \<Rightarrow> db" where
  "update_wallet_balance d b i =
     d\<lparr>wallets := map (\<lambda>w. if w_id w = i then w\<lparr>w_balance := b\<rparr> else w) (wallets d)\<rparr>"

text \<open>\<^verbatim>\<open>UPDATE transactions SET status = ? WHERE id = ?\<close>.\<close>

definition update_transaction_status :: "db \<Rightarrow> string \<Rightarrow> nat \<Rightarrow> db" where
  "update_transaction_status d s i =
     d\<lparr>transactions := map (\<lambda>t. if t_id t = i then t\<lparr>t_status := s\<rparr> else t) (transactions d)\<rparr>"

text \<open>\<^verbatim>\<open>INSERT INTO notifications\<close>.\<close>

definition insert_notification :: "db \<Rightarrow> notification \<Rightarrow> db" where
  "insert_notification d n = d\<lparr>notifications := notifications d @ [n]\<rparr>"

subsection \<open>Request validation\<close>

text \<open>
  A request body is a JSON object; a key that is absent is \<open>None\<close>, and a required
  key that is absent fails the schema. Joi's \<^verbatim>\<open>string()\<close> refuses the empty string,
  and its \<^verbatim>\<open>number()\<close> refuses a number beyond the safe integers.
\<close>

record transaction_body =
  b_type :: "string option"
  b_amount :: "rat option"
  b_currency :: "string option"
  b_description :: "string option"
  b_reference :: "string option"
  b_metadata :: "string option"

record transaction_value =
  v_type :: string
  v_amount :: rat
  v_currency :: string
  v_description :: "string option"
  v_reference :: "string option"
  v_metadata :: "string option"

definition joi_string :: "string \<Rightarrow> bool" where
  "joi_string s = (s \<noteq> [])"

definition joi_number :: "rat \<Rightarrow> bool" where
  "joi_number a = (- 9007199254740991 \<le> a \<and> a \<le> 9007199254740991)"

definition joi_optional :: "('a \<Rightarrow> bool) \<Rightarrow> 'a option \<Rightarrow> bool" where
  "joi_optional p x = (case x of None \<Rightarrow> True | Some y \<Rightarrow> p y)"

definition joi_default :: "'a \<Rightarrow> 'a option \<Rightarrow> 'a" where
  "joi_default a x = (case x of None \<Rightarrow> a | Some y \<Rightarrow> y)"

definition type_ok :: "string \<Rightarrow> bool" where
  "type_ok s = (joi_string s \<and> s \<in> set [''credit'', ''debit'', ''transfer'', ''payment''])"

definition amount_ok :: "rat \<Rightarrow> bool" where
  "amount_ok a = (joi_number a \<and> 0 < a)"

definition currency_ok :: "string \<Rightarrow> bool" where
  "currency_ok s = (joi_string s \<and> length s = 3)"

definition description_ok :: "string \<Rightarrow> bool" where
  "description_ok s = (joi_string s \<and> length s \<le> 200)"

definition reference_ok :: "string \<Rightarrow> bool" where
  "reference_ok s = (joi_string s \<and> length s \<le> 100)"

definition createTransactionSchema :: "transaction_body \<Rightarrow> error + transaction_value" where
  "createTransactionSchema b =
     (case (b_type b, b_amount b) of
        (Some ty, Some a) \<Rightarrow>
          if type_ok ty \<and> amount_ok a
             \<and> joi_optional currency_ok (b_currency b)
             \<and> joi_optional description_ok (b_description b)
             \<and> joi_optional reference_ok (b_reference b)
          then Inr \<lparr>v_type = ty, v_amount = a,
                    v_currency = joi_default ''USD'' (b_currency b),
                    v_description = b_description b, v_reference = b_reference b,
                    v_metadata = b_metadata b\<rparr>
          else Inl VALIDATION_ERROR
      | _ \<Rightarrow> Inl VALIDATION_ERROR)"

subsection \<open>GET /balance\<close>

text \<open>\<^verbatim>\<open>wallet.balance - wallet.frozen_balance\<close>, as every handler computes it.\<close>

definition availableBalance :: "wallet \<Rightarrow> rat" where
  "availableBalance w = w_balance w - w_frozen_balance w"

record wallet_view =
  wv_balance :: rat
  wv_frozenBalance :: rat
  wv_availableBalance :: rat
  wv_currency :: string

definition view_of :: "wallet \<Rightarrow> wallet_view" where
  "view_of w =
     \<lparr>wv_balance = w_balance w, wv_frozenBalance = w_frozen_balance w,
      wv_availableBalance = availableBalance w, wv_currency = w_currency w\<rparr>"

definition getBalance :: "nat \<Rightarrow> db \<Rightarrow> (error + wallet_view) \<times> db" where
  "getBalance uid d =
     (case select_wallet d uid of
        None \<Rightarrow> (Inl WALLET_NOT_FOUND, d)
      | Some w \<Rightarrow> (Inr (view_of w), d))"

subsection \<open>POST /transactions\<close>

text \<open>
  A call is the authenticated user (\<^verbatim>\<open>req.user.id\<close>), the body, and what the handler
  draws from its environment while it runs: the two \<^verbatim>\<open>uuidv4()\<close> values and the
  \<^verbatim>\<open>CURRENT_TIMESTAMP\<close> of the inserted row.
\<close>

record transaction_call =
  tc_user_id :: nat
  tc_body :: transaction_body
  tc_transaction_uuid :: string
  tc_notification_uuid :: string
  tc_now :: nat

definition debits :: "string \<Rightarrow> bool" where
  "debits ty = (ty = ''debit'' \<or> ty = ''transfer'' \<or> ty = ''payment'')"

definition pending_row :: "transaction_call \<Rightarrow> transaction_value \<Rightarrow> wallet \<Rightarrow> transaction" where
  "pending_row c v w =
     \<lparr>t_id = 0, t_uuid = tc_transaction_uuid c, t_wallet_id = w_id w,
      t_user_id = tc_user_id c, t_type = v_type v, t_amount = v_amount v,
      t_currency = v_currency v, t_description = v_description v,
      t_reference = v_reference v, t_status = ''pending'',
      t_metadata = map_option Request_Metadata (v_metadata v), t_created_at = tc_now c\<rparr>"

definition new_balance :: "transaction_value \<Rightarrow> wallet \<Rightarrow> rat" where
  "new_balance v w =
     (if v_type v = ''credit'' then w_balance w + v_amount v
      else if debits (v_type v) then w_balance w - v_amount v
      else w_balance w)"

definition completed_notification :: "transaction_call \<Rightarrow> transaction_value \<Rightarrow> transaction \<Rightarrow> notification" where
  "completed_notification c v t =
     \<lparr>n_uuid = tc_notification_uuid c, n_user_id = tc_user_id c, n_type = ''payment'',
      n_title = ''Transaction Completed'',
      n_message = Transaction_Completed (v_type v) (v_currency v) (v_amount v),
      n_transaction_id = t_id t\<rparr>"

definition recordTransaction ::
  "transaction_call \<Rightarrow> db \<Rightarrow> (error + transaction_created) \<times> db" where
  "recordTransaction c d =
     (case createTransactionSchema (tc_body c) of
        Inl e \<Rightarrow> (Inl e, d)
      | Inr v \<Rightarrow>
          (case select_wallet d (tc_user_id c) of
             None \<Rightarrow> (Inl WALLET_NOT_FOUND, d)
           | Some w \<Rightarrow>
               if debits (v_type v) \<and> availableBalance w < v_amount v
               then (Inl (INSUFFICIENT_BALANCE (availableBalance w)), d)
               else
                 (let (i, d1) = insert_transaction d (pending_row c v w);
                      d2 = update_wallet_balance d1 (new_balance v w) (w_id w);
                      d3 = update_transaction_status d2 ''completed'' i
                  in case select_transaction d3 i of
                       None \<Rightarrow> (Inl CREATE_ERROR, d3)
                     | Some t \<Rightarrow>
                         (Inr \<lparr>created_transaction = t, created_newBalance = new_balance v w\<rparr>,
                          insert_notification d3 (completed_notification c v t)))))"

subsection \<open>POST /transactions in the arithmetic of doubles\<close>

text \<open>
  A JavaScript number is an IEEE 754 double, and the sum or difference of two numbers is
  the double nearest to the exact result, with a tie going to the even significand.
  \<open>double x\<close> is the double nearest to the rational \<open>x\<close>, for \<open>x\<close> in the range of the
  normal doubles: \<open>unit_in_last_place\<close> looks for the power of two \<open>u\<close> with
  \<open>2\<^sup>5\<^sup>2 * u \<le> \<bar>x\<bar> < 2\<^sup>5\<^sup>3 * u\<close>, in at most 2100 halvings or doublings from 1, and
  \<open>\<bar>x\<bar> / u\<close> is rounded to an integer.
\<close>

definition round_half_even :: "rat \<Rightarrow> int" where
  "round_half_even m =
     (if m - of_int \<lfloor>m\<rfloor> < 1 / 2 then \<lfloor>m\<rfloor>
      else if 1 / 2 < m - of_int \<lfloor>m\<rfloor> then \<lfloor>m\<rfloor> + 1
      else if even \<lfloor>m\<rfloor> then \<lfloor>m\<rfloor>
      else \<lfloor>m\<rfloor> + 1)"

fun unit_in_last_place :: "nat \<Rightarrow> rat \<Rightarrow> rat \<Rightarrow> rat" where
  "unit_in_last_place 0 m u = u"
| "unit_in_last_place (Suc n) m u =
     (if m < 4503599627370496 * u then unit_in_last_place n m (u / 2)
      else if 9007199254740992 * u \<le> m then unit_in_last_place n m (u * 2)
      else u)"

definition double :: "rat \<Rightarrow> rat" where
  "double x =
     (if x = 0 then 0
      else sgn x * of_int (round_half_even (\<bar>x\<bar> / unit_in_last_place 2100 \<bar>x\<bar> 1))
             * unit_in_last_place 2100 \<bar>x\<bar> 1)"

text \<open>
  The handler of \<^verbatim>\<open>POST /transactions\<close> once more, its three operations on numbers
  (\<^verbatim>\<open>wallet.balance - wallet.frozen_balance\<close>, \<^verbatim>\<open>newBalance += amount\<close>,
  \<^verbatim>\<open>newBalance -= amount\<close>) rounded to doubles; the comparison
  \<^verbatim>\<open>availableBalance < amount\<close> of two doubles is exact.
\<close>

definition availableBalance_double :: "wallet \<Rightarrow> rat" where
  "availableBalance_double w = double (w_balance w - w_frozen_balance w)"

definition new_balance_double :: "transaction_value \<Rightarrow> wallet \<Rightarrow> rat" where
  "new_balance_double v w =
     (if v_type v = ''credit'' then double (w_balance w + v_amount v)
      else if debits (v_type v) then double (w_balance w - v_amount v)
      else w_balance w)"

definition recordTransaction_double ::
  "transaction_call \<Rightarrow> db \<Rightarrow> (error + transaction_created) \<times> db" where
  "recordTransaction_double c d =
     (case createTransactionSchema (tc_body c) of
        Inl e \<Rightarrow> (Inl e, d)
      | Inr v \<Rightarrow>
          (case select_wallet d (tc_user_id c) of
             None \<Rightarrow> (Inl WALLET_NOT_FOUND, d)
           | Some w \<Rightarrow>
               if debits (v_type v) \<and> availableBalance_double w < v_amount v
               then (Inl (INSUFFICIENT_BALANCE (availableBalance_double w)), d)
               else
                 (let (i, d1) = insert_transaction d (pending_row c v w);
                      d2 = update_wallet_balance d1 (new_balance_double v w) (w_id w);
                      d3 = update_transaction_status d2 ''completed'' i
                  in case select_transaction d3 i of
                       None \<Rightarrow> (Inl CREATE_ERROR, d3)
                     | Some t \<Rightarrow>
                         (Inr \<lparr>created_transaction = t,
                                created_newBalance = new_balance_double v w\<rparr>,
                          insert_notification d3 (completed_notification c v t)))))"

subsection \<open>POST /transfer\<close>

text \<open>
  Joi's \<^verbatim>\<open>email()\<close> rule is the library's; the handlers take it as the parameter
  \<open>is_email\<close>.
\<close>

record transfer_body =
  tb_recipientEmail :: "string option"
  tb_amount :: "rat option"
  tb_currency :: "string option"
  tb_description :: "string option"

record transfer_value =
  tv_recipientEmail :: string
  tv_amount :: rat
  tv_currency :: string
  tv_description :: "string option"

definition transferSchema :: "(string \<Rightarrow> bool) \<Rightarrow> transfer_body \<Rightarrow> error + transfer_value" where
  "transferSchema is_email b =
     (case (tb_recipientEmail b, tb_amount b) of
        (Some e, Some a) \<Rightarrow>
          if joi_string e \<and> is_email e \<and> amount_ok a
             \<and> joi_optional currency_ok (tb_currency b)
             \<and> joi_optional description_ok (tb_description b)
          then Inr \<lparr>tv_recipientEmail = e, tv_amount = a,
                    tv_currency = joi_default ''USD'' (tb_currency b),
                    tv_description = tb_description b\<rparr>
          else Inl VALIDATION_ERROR
      | _ \<Rightarrow> Inl VALIDATION_ERROR)"

text \<open>
  The call: \<^verbatim>\<open>req.user.id\<close>, \<^verbatim>\<open>req.user.email\<close>, the body, the five \<^verbatim>\<open>uuidv4()\<close>
  values in the order the handler draws them, and the timestamps of the two inserted
  rows.
\<close>

record transfer_call =
  fc_user_id :: nat
  fc_user_email :: string
  fc_body :: transfer_body
  fc_transfer_uuid :: string
  fc_sender_uuid :: string
  fc_recipient_uuid :: string
  fc_sent_uuid :: string
  fc_received_uuid :: string
  fc_sender_now :: nat
  fc_recipient_now :: nat

definition sender_leg :: "transfer_call \<Rightarrow> transfer_value \<Rightarrow> wallet \<Rightarrow> user \<Rightarrow> transaction" where
  "sender_leg c v sw r =
     \<lparr>t_id = 0, t_uuid = fc_sender_uuid c, t_wallet_id = w_id sw, t_user_id = fc_user_id c,
      t_type = ''transfer'', t_amount = tv_amount v, t_currency = tv_currency v,
      t_description = Some (''Transfer to '' @ tv_recipientEmail v),
      t_reference = Some (fc_transfer_uuid c), t_status = ''completed'',
      t_metadata = Some (Outgoing (tv_recipientEmail v) (u_id r)),
      t_created_at = fc_sender_now c\<rparr>"

definition recipient_leg :: "transfer_call \<Rightarrow> transfer_value \<Rightarrow> wallet \<Rightarrow> user \<Rightarrow> transaction" where
  "recipient_leg c v rw r =
     \<lparr>t_id = 0, t_uuid = fc_recipient_uuid c, t_wallet_id = w_id rw, t_user_id = u_id r,
      t_type = ''credit'', t_amount = tv_amount v, t_currency = tv_currency v,
      t_description = Some (''Transfer from '' @ fc_user_email c),
      t_reference = Some (fc_transfer_uuid c), t_status = ''completed'',
      t_metadata = Some (Incoming (fc_user_email c) (fc_user_id c)),
      t_created_at = fc_recipient_now c\<rparr>"

definition sent_notification :: "transfer_call \<Rightarrow> transfer_value \<Rightarrow> nat \<Rightarrow> notification" where
  "sent_notification c v i =
     \<lparr>n_uuid = fc_sent_uuid c, n_user_id = fc_user_id c, n_type = ''payment'',
      n_title = ''Transfer Sent'',
      n_message = Transfer_Sent (tv_currency v) (tv_amount v) (tv_recipientEmail v),
      n_transaction_id = i\<rparr>"

definition received_notification :: "transfer_call \<Rightarrow> transfer_value \<Rightarrow> user \<Rightarrow> nat \<Rightarrow> notification" where
  "received_notification c v r i =
     \<lparr>n_uuid = fc_received_uuid c, n_user_id = u_id r, n_type = ''payment'',
      n_title = ''Transfer Received'',
      n_message = Transfer_Received (tv_currency v) (tv_amount v) (fc_user_email c),
      n_transaction_id = i\<rparr>"

definition transfer_answer :: "transfer_call \<Rightarrow> transfer_value \<Rightarrow> wallet \<Rightarrow> user \<Rightarrow> transfer_completed" where
  "transfer_answer c v sw r =
     \<lparr>transfer_uuid = fc_transfer_uuid c, transfer_amount = tv_amount v,
      transfer_currency = tv_currency v, transfer_recipientEmail = tv_recipientEmail v,
      transfer_recipientName = u_first_name r @ '' '' @ u_last_name r,
      transfer_description = tv_description v,
      transfer_newBalance = w_balance sw - tv_amount v\<rparr>"

definition transferFunds ::
  "(string \<Rightarrow> bool) \<Rightarrow> transfer_call \<Rightarrow> db \<Rightarrow> (error + transfer_completed) \<times> db" where
  "transferFunds is_email c d =
     (case transferSchema is_email (fc_body c) of
        Inl e \<Rightarrow> (Inl e, d)
      | Inr v \<Rightarrow>
          (case select_wallet d (fc_user_id c) of
             None \<Rightarrow> (Inl SENDER_WALLET_NOT_FOUND, d)
           | Some sw \<Rightarrow>
               if availableBalance sw < tv_amount v
               then (Inl (INSUFFICIENT_BALANCE (availableBalance sw)), d)
               else
                 (case select_active_user d (tv_recipientEmail v) of
                    None \<Rightarrow> (Inl RECIPIENT_NOT_FOUND, d)
                  | Some r \<Rightarrow>
                      (case select_wallet d (u_id r) of
                         None \<Rightarrow> (Inl RECIPIENT_WALLET_NOT_FOUND, d)
                       | Some rw \<Rightarrow>
                           (let (si, d1) = insert_transaction d (sender_leg c v sw r);
                                (ri, d2) = insert_transaction d1 (recipient_leg c v rw r);
                                d3 = update_wallet_balance d2 (w_balance sw - tv_amount v) (w_id sw);
                                d4 = update_wallet_balance d3 (w_balance rw + tv_amount v) (w_id rw);
                                d5 = insert_notification d4 (sent_notification c v si);
                                d6 = insert_notification d5 (received_notification c v r ri)
                            in (Inr (transfer_answer c v sw r), d6))))))"

subsection \<open>GET /stats\<close>
















subsection \<open>The handlers, one store access at a time\<close>

text \<open>
  Node runs a handler until its next \<^verbatim>\<open>await\<close> and may then run another request. A
  task is a handler suspended at an \<^verbatim>\<open>await\<close>: the store access it is about to make,
  with the local variables it holds. A step makes the access and runs the synchronous
  code up to the next \<^verbatim>\<open>await\<close> or to the answer.
\<close>

datatype transaction_task =
  TT_select_wallet transaction_value
| TT_insert transaction_value wallet
| TT_update_wallet transaction_value wallet nat
| TT_update_status transaction_value wallet nat
| TT_select_transaction transaction_value wallet nat
| TT_notify transaction_value wallet transaction
| TT_answer "error + transaction_created"

definition transaction_start :: "transaction_call \<Rightarrow> transaction_task" where
  "transaction_start c =
     (case createTransactionSchema (tc_body c) of
        Inl e \<Rightarrow> TT_answer (Inl e)
      | Inr v \<Rightarrow> TT_select_wallet v)"

fun transaction_step :: "transaction_call \<Rightarrow> transaction_task \<Rightarrow> db \<Rightarrow> transaction_task \<times> db" where
  "transaction_step c (TT_select_wallet v) d =
     (case select_wallet d (tc_user_id c) of
        None \<Rightarrow> (TT_answer (Inl WALLET_NOT_FOUND), d)
      | Some w \<Rightarrow>
          if debits (v_type v) \<and> availableBalance w < v_amount v
          then (TT_answer (Inl (INSUFFICIENT_BALANCE (availableBalance w))), d)
          else (TT_insert v w, d))"
| "transaction_step c (TT_insert v w) d =
     (let (i, d1) = insert_transaction d (pending_row c v w) in (TT_update_wallet v w i, d1))"
| "transaction_step c (TT_update_wallet v w i) d =
     (TT_update_status v w i, update_wallet_balance d (new_balance v w) (w_id w))"
| "transaction_step c (TT_update_status v w i) d =
     (TT_select_transaction v w i, update_transaction_status d ''completed'' i)"
| "transaction_step c (TT_select_transaction v w i) d =
     (case select_transaction d i of
        None \<Rightarrow> (TT_answer (Inl CREATE_ERROR), d)
      | Some t \<Rightarrow> (TT_notify v w t, d))"
| "transaction_step c (TT_notify v w t) d =
     (TT_answer (Inr \<lparr>created_transaction = t, created_newBalance = new_balance v w\<rparr>),
      insert_notification d (completed_notification c v t))"
| "transaction_step c (TT_answer a) d = (TT_answer a, d)"

datatype transfer_task =
  FT_select_sender transfer_value
| FT_select_recipient transfer_value wallet
| FT_select_recipient_wallet transfer_value wallet user
| FT_insert_sender transfer_value wallet user wallet
| FT_insert_recipient transfer_value wallet user wallet nat
| FT_update_sender transfer_value wallet user wallet nat nat
| FT_update_recipient transfer_value wallet user wallet nat nat
| FT_notify_sender transfer_value wallet user wallet nat nat
| FT_notify_recipient transfer_value wallet user wallet nat nat
| FT_answer "error + transfer_completed"

definition transfer_start :: "(string \<Rightarrow> bool) \<Rightarrow> transfer_call \<Rightarrow> transfer_task" where
  "transfer_start is_email c =
     (case transferSchema is_email (fc_body c) of
        Inl e \<Rightarrow> FT_answer (Inl e)
      | Inr v \<Rightarrow> FT_select_sender v)"

fun transfer_step :: "transfer_call \<Rightarrow> transfer_task \<Rightarrow> db \<Rightarrow> transfer_task \<times> db" where
  "transfer_step c (FT_select_sender v) d =
     (case select_wallet d (fc_user_id c) of
        None \<Rightarrow> (FT_answer (Inl SENDER_WALLET_NOT_FOUND), d)
      | Some sw \<Rightarrow>
          if availableBalance sw < tv_amount v
          then (FT_answer (Inl (INSUFFICIENT_BALANCE (availableBalance sw))), d)
          else (FT_select_recipient v sw, d))"
| "transfer_step c (FT_select_recipient v sw) d =
     (case select_active_user d (tv_recipientEmail v) of
        None \<Rightarrow> (FT_answer (Inl RECIPIENT_NOT_FOUND), d)
      | Some r \<Rightarrow> (FT_select_recipient_wallet v sw r, d))"
| "transfer_step c (FT_select_recipient_wallet v sw r) d =
     (case select_wallet d (u_id r) of
        None \<Rightarrow> (FT_answer (Inl RECIPIENT_WALLET_NOT_FOUND), d)
      | Some rw \<Rightarrow> (FT_insert_sender v sw r rw, d))"
| "transfer_step c (FT_insert_sender v sw r rw) d =
     (let (si, d1) = insert_transaction d (sender_leg c v sw r)
      in (FT_insert_recipient v sw r rw si, d1))"
| "transfer_step c (FT_insert_recipient v sw r rw si) d =
     (let (ri, d1) = insert_transaction d (recipient_leg c v rw r)
      in (FT_update_sender v sw r rw si ri, d1))"
| "transfer_step c (FT_update_sender v sw r rw si ri) d =
     (FT_update_recipient v sw r rw si ri,
      update_wallet_balance d (w_balance sw - tv_amount v) (w_id sw))"
| "transfer_step c (FT_update_recipient v sw r rw si ri) d =
     (FT_notify_sender v sw r rw si ri,
      update_wallet_balance d (w_balance rw + tv_amount v) (w_id rw))"
| "transfer_step c (FT_notify_sender v sw r rw si ri) d =
     (FT_notify_recipient v sw r rw si ri, insert_notification d (sent_notification c v si))"
| "transfer_step c (FT_notify_recipient v sw r rw si ri) d =
     (FT_answer (Inr (transfer_answer c v sw r)),
      insert_notification d (received_notification c v r ri))"
| "transfer_step c (FT_answer a) d = (FT_answer a, d)"

text \<open>
  Requests in flight, and a schedule: the list of the requests' indices in the order in
  which Node resumes them.
\<close>

datatype process =
  Transaction_Process transaction_call transaction_task
| Transfer_Process transfer_call transfer_task

fun process_step :: "process \<Rightarrow> db \<Rightarrow> process \<times> db" where
  "process_step (Transaction_Process c k) d =
     (let (k', d') = transaction_step c k d in (Transaction_Process c k', d'))"
| "process_step (Transfer_Process c k) d =
     (let (k', d') = transfer_step c k d in (Transfer_Process c k', d'))"

fun run_schedule :: "nat list \<Rightarrow> process list \<Rightarrow> db \<Rightarrow> process list \<times> db" where
  "run_schedule [] ps d = (ps, d)"
| "run_schedule (n # ns) ps d =
     (if n < length ps
      then (let (p', d') = process_step (ps ! n) d in run_schedule ns (ps[n := p']) d')
      else run_schedule ns ps d)"

subsection \<open>Sequences of operations\<close>




subsection \<open>A small ledger\<close>

text \<open>
  Two active users with one wallet each, balances 1000.00 and 200.00, nothing frozen,
  no transaction yet; and a \<^verbatim>\<open>POST /transactions\<close> call of the first user.
\<close>

definition alice :: user where
  "alice = \<lparr>u_id = 1, u_email = ''alice@example.com'', u_first_name = ''Alice'',
     u_last_name = ''Ade'', u_is_active = True\<rparr>"

definition bob :: user where
  "bob = \<lparr>u_id = 2, u_email = ''bob@example.com'', u_first_name = ''Bob'',
     u_last_name = ''Bello'', u_is_active = True\<rparr>"

definition alice_wallet :: wallet where
  "alice_wallet = \<lparr>w_id = 1, w_user_id = 1, w_currency = ''USD'', w_balance = 1000,
     w_frozen_balance = 0\<rparr>"

definition bob_wallet :: wallet where
  "bob_wallet = \<lparr>w_id = 2, w_user_id = 2, w_currency = ''USD'', w_balance = 200,
     w_frozen_balance = 0\<rparr>"

definition ledger0 :: db where
  "ledger0 = \<lparr>users = [alice, bob], wallets = [alice_wallet, bob_wallet],
     transactions = [], notifications = []\<rparr>"

definition request :: "string \<Rightarrow> rat \<Rightarrow> string option \<Rightarrow> string \<Rightarrow> transaction_call" where
  "request k a cur u =
     \<lparr>tc_user_id = 1,
      tc_body = \<lparr>b_type = Some k, b_amount = Some a, b_currency = cur,
        b_description = None, b_reference = None, b_metadata = None\<rparr>,
      tc_transaction_uuid = u, tc_notification_uuid = u @ ''-n'', tc_now = 5\<rparr>"

text \<open>
  The small ledger with 0.01 of the first wallet frozen: the column holds the double
  nearest to 0.01.
\<close>

definition frozen_ledger :: db where
  "frozen_ledger =
     ledger0\<lparr>wallets := [alice_wallet\<lparr>w_frozen_balance := double (1 / 100)\<rparr>, bob_wallet]\<rparr>"

text \<open>
  A \<^verbatim>\<open>POST /transfer\<close> call of the first user, and a stand-in for Joi's email rule.
\<close>

definition has_at :: "string \<Rightarrow> bool" where
  "has_at s = (CHR ''@'' \<in> set s)"

definition transfer_request :: "string \<Rightarrow> rat \<Rightarrow> string option \<Rightarrow> transfer_call" where
  "transfer_request e a cur =
     \<lparr>fc_user_id = 1, fc_user_email = ''alice@example.com'',
      fc_body = \<lparr>tb_recipientEmail = Some e, tb_amount = Some a, tb_currency = cur,
        tb_description = None\<rparr>,
      fc_transfer_uuid = ''t1'', fc_sender_uuid = ''t2'', fc_recipient_uuid = ''t3'',
      fc_sent_uuid = ''t4'', fc_received_uuid = ''t5'', fc_sender_now = 7,
      fc_recipient_now = 7\<rparr>"



section \<open>Properties\<close>

lemmas schema_defs =
  createTransactionSchema_def transferSchema_def  joi_optional_def
  joi_default_def joi_string_def joi_number_def type_ok_def amount_ok_def currency_ok_def
  description_ok_def reference_ok_def

lemmas scenario_defs =
  alice_def bob_def alice_wallet_def bob_wallet_def ledger0_def request_def

subsection \<open>Rejected calls of POST /transactions\<close>

text \<open>
  C5. A \<^verbatim>\<open>POST /transactions\<close> call whose amount is zero or negative, or whose type is
  not one of credit, debit, transfer and payment, or whose currency is not a string of
  three characters, is answered with \<^verbatim>\<open>VALIDATION_ERROR\<close>. The database is left as it
  was, and the handler answers before its first store access: its task starts as the
  answer.
\<close>

theorem invalid_transaction_rejected:
  assumes "b_amount (tc_body c) = Some a \<and> a \<le> 0
     \<or> b_type (tc_body c) = Some k \<and> k \<notin> {''credit'', ''debit'', ''transfer'', ''payment''}
     \<or> b_currency (tc_body c) = Some cur \<and> length cur \<noteq> 3"
  shows "recordTransaction c d = (Inl VALIDATION_ERROR, d)
     \<and> transaction_start c = TT_answer (Inl VALIDATION_ERROR)"
proof -
  have "createTransactionSchema (tc_body c) = Inl VALIDATION_ERROR"
    using assms by (auto simp: schema_defs split: option.splits)
  then show ?thesis
    by (simp add: recordTransaction_def transaction_start_def)
qed

theorem invalid_transaction_rejected_witness:
  "recordTransaction (request ''debit'' 0 None ''u1'') ledger0 = (Inl VALIDATION_ERROR, ledger0)
   \<and> recordTransaction (request ''refund'' 5 None ''u1'') ledger0 = (Inl VALIDATION_ERROR, ledger0)
   \<and> recordTransaction (request ''credit'' 5 (Some ''US'') ''u1'') ledger0
       = (Inl VALIDATION_ERROR, ledger0)"
  using invalid_transaction_rejected [of "request ''debit'' 0 None ''u1''" 0 "''x''" "''x''" ledger0]
    invalid_transaction_rejected [of "request ''refund'' 5 None ''u1''" 0 "''refund''" "''x''" ledger0]
    invalid_transaction_rejected [of "request ''credit'' 5 (Some ''US'') ''u1''" 0 "''x''" "''US''" ledger0]
  by (simp add: request_def)



subsection \<open>The store accesses\<close>

lemma fold_max_ge: "(a::nat) \<le> fold max xs a"
  by (induction xs arbitrary: a) (auto intro: order_trans [OF max.cobounded2])

lemma fold_max_mem: "x \<in> set xs \<Longrightarrow> (x::nat) \<le> fold max xs a"
proof (induction xs arbitrary: a)
  case Nil
  then show ?case by simp
next
  case (Cons y ys)
  show ?case
  proof (cases "x = y")
    case True
    have "y \<le> max y a" by simp
    also have "\<dots> \<le> fold max ys (max y a)" by (rule fold_max_ge)
    finally show ?thesis using True by simp
  next
    case False
    with Cons show ?thesis by simp
  qed
qed

text \<open>The rowid of an inserted transaction is above every rowid of the table.\<close>

lemma last_id_bound: "t \<in> set ts \<Longrightarrow> t_id t \<le> last_id ts"
  unfolding last_id_def by (rule fold_max_mem) simp

lemma last_id_snoc: "last_id (ts @ [t]) = max (t_id t) (last_id ts)"
  by (simp add: last_id_def)

lemma status_update_fresh:
  assumes "\<forall>t\<in>set ts. t_id t \<noteq> i"
  shows "map (\<lambda>t. if t_id t = i then t\<lparr>t_status := s\<rparr> else t) ts = ts"
  using assms by (induction ts) auto

lemma status_update_inserted:
  "map (\<lambda>t. if t_id t = Suc (last_id ts) then t\<lparr>t_status := s\<rparr> else t) ts = ts"
proof (rule status_update_fresh, rule ballI)
  fix t assume "t \<in> set ts"
  then have "t_id t \<le> last_id ts" by (rule last_id_bound)
  then show "t_id t \<noteq> Suc (last_id ts)" by simp
qed



lemma find_map_invariant:
  assumes "\<And>x. P (f x) = P x"
  shows "find P (map f xs) = map_option f (find P xs)"
  using assms by (induction xs) auto

subsection \<open>What an accepted call does\<close>


text \<open>
  An accepted \<^verbatim>\<open>POST /transfer\<close> call appends the two legs and the two notifications.
  Its two updates of the wallets table are made one after the other, so a row that
  carries the id of both wallets keeps the second balance.
\<close>

lemma transferFunds_effect:
  assumes "transferSchema is_email (fc_body c) = Inr v"
    and "select_wallet d (fc_user_id c) = Some sw"
    and "\<not> availableBalance sw < tv_amount v"
    and "select_active_user d (tv_recipientEmail v) = Some r"
    and "select_wallet d (u_id r) = Some rw"
    and "out = (sender_leg c v sw r)\<lparr>t_id := Suc (last_id (transactions d))\<rparr>"
    and "inc = (recipient_leg c v rw r)\<lparr>t_id := Suc (Suc (last_id (transactions d)))\<rparr>"
  shows "transferFunds is_email c d =
     (Inr (transfer_answer c v sw r),
      d\<lparr>wallets :=
          map (\<lambda>x. if w_id x = w_id rw then x\<lparr>w_balance := w_balance rw + tv_amount v\<rparr>
                   else if w_id x = w_id sw then x\<lparr>w_balance := w_balance sw - tv_amount v\<rparr>
                   else x) (wallets d),
        transactions := transactions d @ [out, inc],
        notifications := notifications d @
          [sent_notification c v (t_id out), received_notification c v r (t_id inc)]\<rparr>)"
  using assms
  by (simp add: transferFunds_def insert_transaction_def update_wallet_balance_def
      insert_notification_def last_id_snoc Let_def comp_def cong: if_cong)

subsection \<open>A transfer to oneself\<close>


lemma transfer_300_value:
  "transferSchema has_at (fc_body (transfer_request e 300 None)) =
     (if e \<noteq> [] \<and> has_at e then Inr \<lparr>tv_recipientEmail = e, tv_amount = 300, tv_currency = ''USD'',
        tv_description = None\<rparr> else Inl VALIDATION_ERROR)"
  by (simp add: transfer_request_def schema_defs)


subsection \<open>Rejected calls of POST /transfer\<close>




subsection \<open>Completed transfers\<close>

text \<open>
  A completed transfer between two wallets with different ids leaves the sender's stored
  balance at the old balance minus the amount and the recipient's at the old balance
  plus the amount, and gives both legs the transfer's uuid as their reference.
\<close>

lemma transfer_between_two_wallets:
  assumes "transferSchema is_email (fc_body c) = Inr v"
    and "select_wallet d (fc_user_id c) = Some sw"
    and "tv_amount v \<le> availableBalance sw"
    and "select_active_user d (tv_recipientEmail v) = Some r"
    and "select_wallet d (u_id r) = Some rw"
    and "w_id sw \<noteq> w_id rw"
    and "transferFunds is_email c d = (a, d')"
  shows "select_wallet d' (fc_user_id c) = Some (sw\<lparr>w_balance := w_balance sw - tv_amount v\<rparr>)
     \<and> select_wallet d' (u_id r) = Some (rw\<lparr>w_balance := w_balance rw + tv_amount v\<rparr>)
     \<and> (\<exists>out inc. transactions d' = transactions d @ [out, inc]
          \<and> t_reference out = Some (fc_transfer_uuid c)
          \<and> t_reference inc = Some (fc_transfer_uuid c))
     \<and> a = Inr (transfer_answer c v sw r)"
proof -
  have ok: "\<not> availableBalance sw < tv_amount v" using assms(3) by simp
  note eff = transferFunds_effect [OF assms(1,2) ok assms(4,5) refl refl]
  let ?f = "\<lambda>x. if w_id x = w_id rw then x\<lparr>w_balance := w_balance rw + tv_amount v\<rparr>
               else if w_id x = w_id sw then x\<lparr>w_balance := w_balance sw - tv_amount v\<rparr>
               else x"
  from eff assms(7) have ws: "wallets d' = map ?f (wallets d)" by auto
  have sel: "select_wallet d' u = map_option ?f (select_wallet d u)" for u
    unfolding select_wallet_def ws by (simp add: find_map_invariant)
  from eff assms(7) have "transactions d' = transactions d @
      [(sender_leg c v sw r)\<lparr>t_id := Suc (last_id (transactions d))\<rparr>,
       (recipient_leg c v rw r)\<lparr>t_id := Suc (Suc (last_id (transactions d)))\<rparr>]"
    by auto
  then have legs: "\<exists>out inc. transactions d' = transactions d @ [out, inc]
          \<and> t_reference out = Some (fc_transfer_uuid c)
          \<and> t_reference inc = Some (fc_transfer_uuid c)"
    by (simp add: sender_leg_def recipient_leg_def)
  from eff assms(7) have "a = Inr (transfer_answer c v sw r)" by simp
  with legs show ?thesis using assms(2,5,6) by (simp add: sel)
qed

text \<open>
  C2. The sender's stored balance after a completed transfer is the balance before
  minus the amount, the recipient's is the balance before plus the amount, and the two
  legs share one reference. The handler does not tell the caller from the recipient:
  on the small ledger the first user sends 300.00 to the first user's own address. The
  balance is 1000.00 before; the answer reports the new balance 700.00; the stored
  balance is 1300.00.
\<close>

theorem self_transfer_answer_and_store:
  "map_option w_balance (select_wallet ledger0 1) = Some 1000
   \<and> map_sum id transfer_newBalance
       (fst (transferFunds has_at (transfer_request ''alice@example.com'' 300 None) ledger0))
       = Inr 700
   \<and> map_option w_balance (select_wallet
       (snd (transferFunds has_at (transfer_request ''alice@example.com'' 300 None) ledger0)) 1)
       = Some 1300"
proof -
  let ?c = "transfer_request ''alice@example.com'' 300 None"
  let ?v = "\<lparr>tv_recipientEmail = ''alice@example.com'', tv_amount = 300, tv_currency = ''USD'',
        tv_description = None\<rparr>"
  have 1: "transferSchema has_at (fc_body ?c) = Inr ?v"
    by (simp add: transfer_300_value has_at_def)
  have 2: "select_wallet ledger0 (fc_user_id ?c) = Some alice_wallet"
    by (simp add: select_wallet_def transfer_request_def ledger0_def alice_wallet_def)
  have 3: "\<not> availableBalance alice_wallet < tv_amount ?v"
    by (simp add: availableBalance_def alice_wallet_def)
  have 4: "select_active_user ledger0 (tv_recipientEmail ?v) = Some alice"
    by (simp add: select_active_user_def ledger0_def alice_def)
  have 5: "select_wallet ledger0 (u_id alice) = Some alice_wallet"
    by (simp add: select_wallet_def alice_def ledger0_def alice_wallet_def)
  note eff = transferFunds_effect [OF 1 2 3 4 5 refl refl]
  have "select_wallet ledger0 1 = Some alice_wallet"
    using 2 by (simp add: transfer_request_def)
  then show ?thesis
    unfolding eff
    by (simp add: select_wallet_def ledger0_def alice_wallet_def bob_wallet_def transfer_answer_def)
qed

subsection \<open>Currencies\<close>



subsection \<open>The handlers and their steps\<close>

text \<open>
  A handler that runs alone from its start to its answer makes at most six
  (\<^verbatim>\<open>POST /transactions\<close>) or nine (\<^verbatim>\<open>POST /transfer\<close>) store accesses, and the steps
  give the answer and the database of the handler.
\<close>

lemma transaction_steps_run:
  "run_schedule [0, 0, 0, 0, 0, 0] [Transaction_Process c (transaction_start c)] d
     = ([Transaction_Process c (TT_answer (fst (recordTransaction c d)))],
        snd (recordTransaction c d))"
  by (simp add: recordTransaction_def transaction_start_def Let_def
      split: sum.splits option.splits prod.splits)

lemma transfer_steps_run:
  "run_schedule [0, 0, 0, 0, 0, 0, 0, 0, 0] [Transfer_Process c (transfer_start is_email c)] d
     = ([Transfer_Process c (FT_answer (fst (transferFunds is_email c d)))],
        snd (transferFunds is_email c d))"
  by (simp add: transferFunds_def transfer_start_def Let_def
      split: sum.splits option.splits prod.splits)

lemmas store_defs =
  select_wallet_def select_active_user_def select_transaction_def insert_transaction_def
  last_id_def update_wallet_balance_def update_transaction_status_def insert_notification_def
  availableBalance_def

lemmas handler_defs =
  debits_def new_balance_def pending_row_def completed_notification_def sender_leg_def
  recipient_leg_def sent_notification_def received_notification_def transfer_answer_def

subsection \<open>The balance check in the arithmetic of doubles\<close>

text \<open>
  The doubles nearest to 0.01 and to 999.99; both are above the decimal they stand for.
\<close>

lemma unit_in_last_place_numeral:
  "unit_in_last_place (numeral k) m u =
     (if m < 4503599627370496 * u then unit_in_last_place (pred_numeral k) m (u / 2)
      else if 9007199254740992 * u \<le> m then unit_in_last_place (pred_numeral k) m (u * 2)
      else u)"
  by (simp add: numeral_eq_Suc)

lemma floor_rat_numeral:
  "\<lfloor>numeral a / numeral b :: rat\<rfloor> = numeral a div numeral b"
  using floor_divide_of_int_eq [of "numeral a" "numeral b", where ?'a = rat] by simp

lemmas double_defs =
  double_def unit_in_last_place_numeral round_half_even_def floor_rat_numeral

lemma double_hundredth: "double (1 / 100) = 5764607523034235 / 576460752303423488"
  by (simp add: double_defs)

lemma double_amount: "double (99999 / 100) = 4398002530638889 / 4398046511104"
  by (simp add: double_defs)

text \<open>
  C1. The available balance of a wallet can be negative after a committed operation.
  On the small ledger with 0.01 of the first wallet frozen, that wallet has balance 1000
  and its available balance is the double of 999.99, so no available balance is
  negative. A debit of 999.99 by its owner, run alone, is accepted, since
  \<^verbatim>\<open>1000 - 0.01 == 999.99\<close> in doubles. The balance stored is
  \<^verbatim>\<open>1000 - 999.99 = 0.009999999999990905\<close>, which is less than the frozen balance: the
  available balance of the wallet is now \<open>- 5243 / 2\<^sup>5\<^sup>9\<close>, about
  \<^verbatim>\<open>-9.1e-15\<close>, in doubles as well as exactly.
\<close>

theorem debit_leaves_negative_available_balance:
  "map availableBalance_double (wallets frozen_ledger) = [double (99999 / 100), 200]
   \<and> isl (fst (recordTransaction_double (request ''debit'' (double (99999 / 100)) None ''u1'')
         frozen_ledger)) = False
   \<and> map w_balance (wallets (snd (recordTransaction_double
         (request ''debit'' (double (99999 / 100)) None ''u1'') frozen_ledger)))
       = [43980465111 / 4398046511104, 200]
   \<and> map availableBalance_double (wallets (snd (recordTransaction_double
         (request ''debit'' (double (99999 / 100)) None ''u1'') frozen_ledger)))
       = [- (5243 / 576460752303423488), 200]
   \<and> map availableBalance (wallets (snd (recordTransaction_double
         (request ''debit'' (double (99999 / 100)) None ''u1'') frozen_ledger)))
       = [- (5243 / 576460752303423488), 200]"
  by (simp add: recordTransaction_double_def frozen_ledger_def availableBalance_double_def
      new_balance_double_def double_defs schema_defs store_defs handler_defs scenario_defs
      Let_def)

subsection \<open>The status of a transaction row\<close>

text \<open>
  What a step does to the transactions table: nothing, or it sets the status of the
  rows with one id to completed, or it appends one row.
\<close>

lemma transaction_step_rows:
  assumes "transaction_step c k d = (k', d')"
  shows "transactions d' = transactions d
     \<or> (\<exists>i. transactions d' =
           map (\<lambda>t. if t_id t = i then t\<lparr>t_status := ''completed''\<rparr> else t) (transactions d))
     \<or> (\<exists>t. transactions d' = transactions d @ [t] \<and> t_status t = ''pending'')"
proof (cases k)
  case (TT_insert v w)
  with assms have "transactions d' =
      transactions d @ [(pending_row c v w)\<lparr>t_id := Suc (last_id (transactions d))\<rparr>]"
    by (auto simp: insert_transaction_def Let_def)
  moreover have "t_status ((pending_row c v w)\<lparr>t_id := Suc (last_id (transactions d))\<rparr>) = ''pending''"
    by (simp add: pending_row_def)
  ultimately show ?thesis by blast
next
  case (TT_update_status v w i)
  with assms have "transactions d' =
       map (\<lambda>t. if t_id t = i then t\<lparr>t_status := ''completed''\<rparr> else t) (transactions d)"
    by (auto simp: update_transaction_status_def)
  then show ?thesis by blast
qed (use assms in \<open>auto simp: update_wallet_balance_def insert_notification_def
    split: option.splits if_splits\<close>)

lemma transfer_step_rows:
  assumes "transfer_step c k d = (k', d')"
  shows "transactions d' = transactions d
     \<or> (\<exists>t. transactions d' = transactions d @ [t] \<and> t_status t = ''completed'')"
proof (cases k)
  case (FT_insert_sender v sw r rw)
  with assms have "transactions d' =
      transactions d @ [(sender_leg c v sw r)\<lparr>t_id := Suc (last_id (transactions d))\<rparr>]"
    by (auto simp: insert_transaction_def Let_def)
  moreover have "t_status ((sender_leg c v sw r)\<lparr>t_id := Suc (last_id (transactions d))\<rparr>) = ''completed''"
    by (simp add: sender_leg_def)
  ultimately show ?thesis by blast
next
  case (FT_insert_recipient v sw r rw si)
  with assms have "transactions d' =
      transactions d @ [(recipient_leg c v rw r)\<lparr>t_id := Suc (last_id (transactions d))\<rparr>]"
    by (auto simp: insert_transaction_def Let_def)
  moreover have "t_status ((recipient_leg c v rw r)\<lparr>t_id := Suc (last_id (transactions d))\<rparr>) = ''completed''"
    by (simp add: recipient_leg_def)
  ultimately show ?thesis by blast
qed (use assms in \<open>auto simp: update_wallet_balance_def insert_notification_def
    split: option.splits if_splits\<close>)

lemma completed_row_kept:
  assumes "t_status t = ''completed''"
  shows "(if t_id t = i then t\<lparr>t_status := ''completed''\<rparr> else t) = t"
  using assms by (cases t) auto

lemma process_step_keeps_completed:
  assumes "process_step p d = (p', d')"
    and "n < length (transactions d)" and "t_status (transactions d ! n) = ''completed''"
  shows "n < length (transactions d') \<and> transactions d' ! n = transactions d ! n"
proof -
  have "transactions d' = transactions d
      \<or> (\<exists>i. transactions d' =
            map (\<lambda>t. if t_id t = i then t\<lparr>t_status := ''completed''\<rparr> else t) (transactions d))
      \<or> (\<exists>t. transactions d' = transactions d @ [t])"
  proof (cases p)
    case (Transaction_Process c k)
    with assms(1) obtain k' where "transaction_step c k d = (k', d')"
      by (auto split: prod.splits)
    from transaction_step_rows [OF this] show ?thesis by auto
  next
    case (Transfer_Process c k)
    with assms(1) obtain k' where "transfer_step c k d = (k', d')"
      by (auto split: prod.splits)
    from transfer_step_rows [OF this] show ?thesis by auto
  qed
  with assms(2,3) show ?thesis by (auto simp: nth_append completed_row_kept)
qed

lemma schedule_keeps_completed:
  assumes "run_schedule ns ps d = (ps', d')"
    and "n < length (transactions d)" and "t_status (transactions d ! n) = ''completed''"
  shows "n < length (transactions d') \<and> transactions d' ! n = transactions d ! n"
  using assms
proof (induction ns arbitrary: ps d)
  case Nil
  then show ?case by simp
next
  case (Cons m ns)
  show ?case
  proof (cases "m < length ps")
    case True
    obtain p1 d1 where step: "process_step (ps ! m) d = (p1, d1)" by (cases "process_step (ps ! m) d")
    with Cons.prems(1) True have run: "run_schedule ns (ps[m := p1]) d1 = (ps', d')" by simp
    from process_step_keeps_completed [OF step Cons.prems(2,3)]
    have "n < length (transactions d1)" and eq: "transactions d1 ! n = transactions d ! n" by simp_all
    with Cons.IH [OF run] Cons.prems(3) show ?thesis by simp
  next
    case False
    with Cons.prems(1) have "run_schedule ns ps d = (ps', d')" by simp
    from Cons.IH [OF this Cons.prems(2,3)] show ?thesis .
  qed
qed

text \<open>
  An accepted \<^verbatim>\<open>POST /transactions\<close> call: after its second store access its row is in
  the table, pending, and the wallets are as they were; after the third the balance is
  written and the row is still pending; after the fourth the row is completed.
\<close>

lemma transaction_row_order:
  assumes "createTransactionSchema (tc_body c) = Inr v"
    and "select_wallet d (tc_user_id c) = Some w"
    and "\<not> (debits (v_type v) \<and> availableBalance w < v_amount v)"
    and "row = (pending_row c v w)\<lparr>t_id := Suc (last_id (transactions d))\<rparr>"
    and "ws = map (\<lambda>x. if w_id x = w_id w then x\<lparr>w_balance := new_balance v w\<rparr> else x) (wallets d)"
    and "p = Transaction_Process c (transaction_start c)"
  shows "snd (run_schedule [0, 0] [p] d) = d\<lparr>transactions := transactions d @ [row]\<rparr>"
    and "snd (run_schedule [0, 0, 0] [p] d) = d\<lparr>wallets := ws, transactions := transactions d @ [row]\<rparr>"
    and "snd (run_schedule [0, 0, 0, 0] [p] d)
      = d\<lparr>wallets := ws, transactions := transactions d @ [row\<lparr>t_status := ''completed''\<rparr>]\<rparr>"
    and "t_status row = ''pending''"
  using assms
  by (auto simp: transaction_start_def insert_transaction_def update_wallet_balance_def
      update_transaction_status_def status_update_inserted pending_row_def Let_def)

text \<open>
  C7. A transaction row is created pending and becomes completed once the wallet has
  been updated: \<^verbatim>\<open>POST /transactions\<close> does so, \<^verbatim>\<open>POST /transfer\<close> does not. It inserts
  its legs with the status completed: after the fourth store access of a transfer of
  300.00 on the small ledger the sender's leg is in the table, completed, and no wallet
  has been updated yet.
\<close>

theorem transfer_leg_inserted_completed:
  "map t_status (transactions (snd (run_schedule [0, 0, 0, 0]
       [Transfer_Process (transfer_request ''bob@example.com'' 300 None)
          (transfer_start has_at (transfer_request ''bob@example.com'' 300 None))] ledger0)))
     = [''completed'']
   \<and> wallets (snd (run_schedule [0, 0, 0, 0]
       [Transfer_Process (transfer_request ''bob@example.com'' 300 None)
          (transfer_start has_at (transfer_request ''bob@example.com'' 300 None))] ledger0))
     = wallets ledger0"
  by (simp add: transfer_start_def transfer_request_def schema_defs has_at_def store_defs
      handler_defs scenario_defs Let_def)

subsection \<open>Two requests in flight\<close>

text \<open>
  C8. Two \<^verbatim>\<open>POST /transactions\<close> calls of type debit and amount 600.00 by the owner of
  a wallet with balance 1000.00 and nothing frozen, resumed in turn. Both read the
  balance 1000.00 before either writes, both pass the balance check, both rows are
  inserted and completed, both write the balance 400.00 and both answer with the new
  balance 400.00.
\<close>

theorem concurrent_debits_both_accepted:
  "\<exists>t1 t2.
     run_schedule [0, 1, 0, 1, 0, 1, 0, 1, 0, 1, 0, 1]
       [Transaction_Process (request ''debit'' 600 None ''u1'')
          (transaction_start (request ''debit'' 600 None ''u1'')),
        Transaction_Process (request ''debit'' 600 None ''u2'')
          (transaction_start (request ''debit'' 600 None ''u2''))]
       ledger0
     = ([Transaction_Process (request ''debit'' 600 None ''u1'')
          (TT_answer (Inr \<lparr>created_transaction = t1, created_newBalance = 400\<rparr>)),
         Transaction_Process (request ''debit'' 600 None ''u2'')
          (TT_answer (Inr \<lparr>created_transaction = t2, created_newBalance = 400\<rparr>))],
        ledger0\<lparr>wallets := [alice_wallet\<lparr>w_balance := 400\<rparr>, bob_wallet],
          transactions := [t1, t2],
          notifications :=
            [completed_notification (request ''debit'' 600 None ''u1'')
               \<lparr>v_type = ''debit'', v_amount = 600, v_currency = ''USD'', v_description = None,
                 v_reference = None, v_metadata = None\<rparr> t1,
             completed_notification (request ''debit'' 600 None ''u2'')
               \<lparr>v_type = ''debit'', v_amount = 600, v_currency = ''USD'', v_description = None,
                 v_reference = None, v_metadata = None\<rparr> t2]\<rparr>)
     \<and> t_type t1 = ''debit'' \<and> t_amount t1 = 600 \<and> t_status t1 = ''completed''
     \<and> t_wallet_id t1 = 1
     \<and> t_type t2 = ''debit'' \<and> t_amount t2 = 600 \<and> t_status t2 = ''completed''
     \<and> t_wallet_id t2 = 1"
  by (simp add: transaction_start_def schema_defs store_defs handler_defs scenario_defs Let_def)

subsection \<open>GET /stats\<close>




























end
